theory Spec2Isabelle
  imports Complex_Main "HOL-Library.Sublist"
begin

section \<open>Strings\<close>

text \<open>
  A JavaScript string is a sequence of UTF-16 code units. The model covers the strings whose
  code units are all below 256 (the Latin-1 range, which contains every keyword of the rule
  tables and every generated tag): such a string is a \<open>string\<close>, one \<open>char\<close> per code
  unit, and \<open>length\<close> is the \<open>.length\<close> of the source. JavaScript numbers are idealised as
  reals; counters and lengths are naturals, converted where the source divides them.
\<close>

text \<open>\<open>String.prototype.toLowerCase\<close> on that range: A-Z and the accented capitals
  U+00C0..U+00DE (without the multiplication sign U+00D7) move up by 32.\<close>

definition lowerChar :: "char \<Rightarrow> char" where
  "lowerChar c =
     (let n = (of_char c :: nat)
      in if (65 \<le> n \<and> n \<le> 90) \<or> (192 \<le> n \<and> n \<le> 222 \<and> n \<noteq> 215)
         then char_of (n + 32) else c)"

definition toLowerCase :: "string \<Rightarrow> string" where
  "toLowerCase s = map lowerChar s"

text \<open>\<open>text.includes(keyword)\<close>: the keyword occurs as a contiguous run of the text.\<close>

fun str_includes :: "string \<Rightarrow> string \<Rightarrow> bool" where
  "str_includes [] k = (k = [])"
| "str_includes (c # cs) k = (prefix k (c # cs) \<or> str_includes cs k)"

text \<open>\<open>String.prototype.trim\<close>: the white space of the range is TAB, LF, VT, FF, CR,
  space and the no-break space U+00A0.\<close>

definition isWhitespace :: "char \<Rightarrow> bool" where
  "isWhitespace c = ((of_char c :: nat) \<in> {9, 10, 11, 12, 13, 32, 160})"

definition trim :: "string \<Rightarrow> string" where
  "trim s = rev (dropWhile isWhitespace (rev (dropWhile isWhitespace s)))"

text \<open>\<open>[...new Set(xs)]\<close>: a \<open>Set\<close> keeps insertion order and ignores the insertion of a
  value it already holds, so the spread lists every value at its first occurrence.\<close>

definition setAdd :: "'a \<Rightarrow> 'a list \<Rightarrow> 'a list" where
  "setAdd x acc = (if x \<in> set acc then acc else acc @ [x])"

definition newSet :: "'a list \<Rightarrow> 'a list" where
  "newSet xs = fold setAdd xs []"

section \<open>Rule tables\<close>

text \<open>The tables of the \<open>ContentAnalyzer\<close> constructor. \<open>Object.entries\<close> lists the string
  keys of an object literal in the order they are written, so a table is an association list
  in source order.\<close>

record KeywordRule =
  rule_keywords :: "string list"
  weight :: real

datatype PriorityLevel = Urgent | High | Normal | Low

datatype Sentiment = Positive | Negative | Neutral

definition categoryKeywords :: "(string \<times> KeywordRule) list" where
  "categoryKeywords =
    [(''technical'', \<lparr>rule_keywords =
        [''bug'', ''error'', ''crash'', ''broken'', ''not working'', ''malfunction'',
         ''technical issue'', ''system down'', ''outage'', ''server'', ''api'',
         ''integration'', ''database'', ''connection'', ''timeout'', ''performance'',
         ''slow loading'', ''loading time'', ''latency'', ''500 error'', ''404 error''],
        weight = 2\<rparr>),
     (''billing'', \<lparr>rule_keywords =
        [''billing'', ''payment'', ''invoice'', ''charge'', ''refund'', ''subscription'',
         ''credit card'', ''transaction'', ''receipt'', ''price'', ''cost'', ''fee'',
         ''upgrade'', ''downgrade'', ''plan'', ''pricing'', ''discount'', ''promo code''],
        weight = 2\<rparr>),
     (''account'', \<lparr>rule_keywords =
        [''account'', ''login'', ''password'', ''forgot password'', ''reset password'',
         ''username'', ''profile'', ''settings'', ''security'', ''two-factor'',
         ''verification'', ''email change'', ''phone number'', ''personal information''],
        weight = 2\<rparr>),
     (''feature_request'', \<lparr>rule_keywords =
        [''feature request'', ''new feature'', ''enhancement'', ''suggestion'',
         ''improvement'', ''would like'', ''wish'', ''could you add'', ''missing'',
         ''please add'', ''request'', ''enhancement''],
        weight = 2\<rparr>),
     (''support'', \<lparr>rule_keywords =
        [''help'', ''question'', ''how to'', ''tutorial'', ''guide'', ''documentation'',
         ''instructions'', ''explain'', ''clarification'', ''confused'', ''understand''],
        weight = 1\<rparr>),
     (''sales'', \<lparr>rule_keywords =
        [''sales'', ''demo'', ''trial'', ''purchase'', ''buy'', ''quote'', ''pricing'',
         ''enterprise'', ''business plan'', ''custom plan'', ''consultation'',
         ''pre-sales'', ''product information''],
        weight = 2\<rparr>)]"

definition urgentRule :: KeywordRule where
  "urgentRule = \<lparr>rule_keywords =
        [''urgent'', ''emergency'', ''critical'', ''asap'', ''immediately'', ''down'',
         ''broken'', ''not working'', ''production'', ''live site'', ''revenue impact'',
         ''security breach'', ''data loss'', ''urgent help needed''],
        weight = 3\<rparr>"

definition highRule :: KeywordRule where
  "highRule = \<lparr>rule_keywords =
        [''important'', ''priority'', ''business impact'', ''customer facing'',
         ''deadline'', ''time sensitive'', ''blocking'', ''major issue''],
        weight = 2\<rparr>"

definition lowRule :: KeywordRule where
  "lowRule = \<lparr>rule_keywords =
        [''when you have time'', ''no rush'', ''minor'', ''cosmetic'', ''nice to have'',
         ''suggestion'', ''feedback'', ''general question''],
        weight = 1\<rparr>"

definition priorityKeywords :: "(PriorityLevel \<times> KeywordRule) list" where
  "priorityKeywords = [(Urgent, urgentRule), (High, highRule), (Low, lowRule)]"

definition negativeWordList :: "string list" where
  "negativeWordList =
     [''frustrated'', ''angry'', ''disappointed'', ''terrible'', ''awful'', ''horrible'',
      ''worst'', ''hate'', ''useless'', ''broken'', ''fed up'', ''unacceptable'',
      ''ridiculous'', ''pathetic'', ''disgusted'']"

definition positiveWordList :: "string list" where
  "positiveWordList =
     [''great'', ''excellent'', ''amazing'', ''wonderful'', ''fantastic'', ''love'',
      ''perfect'', ''awesome'', ''brilliant'', ''outstanding'', ''impressed'',
      ''satisfied'', ''happy'', ''pleased'']"

definition productKeywords :: "(string \<times> string list) list" where
  "productKeywords =
     [(''mobile'', [''mobile'', ''app'', ''ios'', ''android'', ''phone'', ''smartphone'', ''tablet'']),
      (''web'', [''website'', ''browser'', ''chrome'', ''firefox'', ''safari'', ''edge'', ''web app'']),
      (''api'', [''api'', ''endpoint'', ''webhook'', ''integration'', ''developer'', ''sdk'']),
      (''desktop'', [''desktop'', ''windows'', ''mac'', ''macos'', ''linux'', ''software'',
                     ''application''])]"

section \<open>Analysis results\<close>

record CategoryAnalysis =
  category :: string
  cat_score :: real
  cat_matchedKeywords :: "string list"
  cat_confidence :: real

record PriorityAnalysis =
  level :: PriorityLevel
  pri_score :: real
  pri_matchedKeywords :: "string list"
  pri_confidence :: real

record SentimentAnalysis =
  sentiment_label :: Sentiment
  sen_score :: real
  positiveWords :: "string list"
  negativeWords :: "string list"
  sen_confidence :: real

record ProductAnalysis =
  product :: string
  prod_matchedKeywords :: "string list"
  prod_confidence :: real

record TicketAnalysis =
  ticketId :: int
  categories :: "CategoryAnalysis list"
  priority :: PriorityAnalysis
  sentiment :: SentimentAnalysis
  products :: "ProductAnalysis list"
  suggestedTags :: "string list"
  confidence :: real

text \<open>The fields of a ticket that the analyzer and the tagger read. \<open>description\<close> and
  \<open>fullText\<close> are optional in the interface; \<open>tags\<close> is a required array.\<close>

record ZendeskTicket =
  tk_id :: int
  tk_subject :: string
  tk_description :: "string option"
  tk_tags :: "string list"
  tk_fullText :: "string option"

section \<open>Content analyzer\<close>

text \<open>The inner loop of \<open>categorizeContent\<close>: every keyword of the rule found in the
  text adds the rule's weight and is recorded.\<close>

definition categoryStep :: "string \<Rightarrow> KeywordRule \<Rightarrow> string \<Rightarrow> real \<times> string list \<Rightarrow> real \<times> string list" where
  "categoryStep text config keyword acc =
     (case acc of (score, matched) \<Rightarrow>
        if str_includes text keyword then (score + weight config, matched @ [keyword])
        else (score, matched))"

definition categoryEntry :: "string \<Rightarrow> string \<times> KeywordRule \<Rightarrow> CategoryAnalysis list \<Rightarrow> CategoryAnalysis list" where
  "categoryEntry text entry cats =
     (case entry of (cat, config) \<Rightarrow>
        (case fold (categoryStep text config) (rule_keywords config) (0, []) of (score, matched) \<Rightarrow>
           if score > 0
           then cats @ [\<lparr>category = cat, cat_score = score, cat_matchedKeywords = matched,
                         cat_confidence = min (score / 5) 1\<rparr>]
           else cats))"

text \<open>\<open>Array.prototype.sort\<close> is stable; with the comparator \<open>b.score - a.score\<close> it orders
  by descending score and keeps table order among equal scores, as \<open>sort_key\<close> on the negated
  score does.\<close>

definition categorizeContent :: "string \<Rightarrow> CategoryAnalysis list" where
  "categorizeContent text =
     sort_key (\<lambda>c. - cat_score c) (fold (categoryEntry text) categoryKeywords [])"

text \<open>\<open>analyzePriority\<close>: the state of the two nested loops is the triple
  \<open>(highestPriority, score, matchedKeywords)\<close>.\<close>

definition priorityStep :: "string \<Rightarrow> PriorityLevel \<Rightarrow> KeywordRule \<Rightarrow> string
    \<Rightarrow> PriorityLevel \<times> real \<times> string list \<Rightarrow> PriorityLevel \<times> real \<times> string list" where
  "priorityStep text prio config keyword acc =
     (case acc of (highestPriority, score, matched) \<Rightarrow>
        if str_includes text keyword
        then (if weight config > score
              then (prio, weight config, matched @ [keyword])
              else (highestPriority, score, matched @ [keyword]))
        else (highestPriority, score, matched))"

definition priorityEntry :: "string \<Rightarrow> PriorityLevel \<times> KeywordRule
    \<Rightarrow> PriorityLevel \<times> real \<times> string list \<Rightarrow> PriorityLevel \<times> real \<times> string list" where
  "priorityEntry text entry acc =
     (case entry of (prio, config) \<Rightarrow> fold (priorityStep text prio config) (rule_keywords config) acc)"

definition priorityScan :: "string \<Rightarrow> (PriorityLevel \<times> KeywordRule) list
    \<Rightarrow> PriorityLevel \<times> real \<times> string list" where
  "priorityScan text table = fold (priorityEntry text) table (Normal, 0, [])"

definition analyzePriority :: "string \<Rightarrow> PriorityAnalysis" where
  "analyzePriority text =
     (case priorityScan text priorityKeywords of (highestPriority, score, matched) \<Rightarrow>
        \<lparr>level = highestPriority, pri_score = score, pri_matchedKeywords = matched,
         pri_confidence = (if score > 0 then min (score / 3) 1 else 1 / 2)\<rparr>)"

text \<open>\<open>analyzeSentiment\<close>: each of the two loops counts the words of its list found in the
  text and records them.\<close>

definition sentimentStep :: "string \<Rightarrow> string \<Rightarrow> nat \<times> string list \<Rightarrow> nat \<times> string list" where
  "sentimentStep text word acc =
     (case acc of (n, ws) \<Rightarrow> if str_includes text word then (n + 1, ws @ [word]) else (n, ws))"

definition analyzeSentiment :: "string \<Rightarrow> SentimentAnalysis" where
  "analyzeSentiment text =
     (case fold (sentimentStep text) positiveWordList (0, []) of (positiveScore, posWords) \<Rightarrow>
      case fold (sentimentStep text) negativeWordList (0, []) of (negativeScore, negWords) \<Rightarrow>
        \<lparr>sentiment_label =
           (if negativeScore > positiveScore then Negative
            else if positiveScore > negativeScore then Positive else Neutral),
         sen_score =
           (if negativeScore > positiveScore then real negativeScore - real positiveScore
            else if positiveScore > negativeScore then real positiveScore - real negativeScore
            else 0),
         positiveWords = posWords,
         negativeWords = negWords,
         sen_confidence = min (real (positiveScore + negativeScore) / 3) 1\<rparr>)"

definition productEntry :: "string \<Rightarrow> string \<times> string list \<Rightarrow> ProductAnalysis list \<Rightarrow> ProductAnalysis list" where
  "productEntry text entry prods =
     (case entry of (prd, kws) \<Rightarrow>
        (let matched = filter (str_includes text) kws
         in if length matched > 0
            then prods @ [\<lparr>product = prd, prod_matchedKeywords = matched,
                            prod_confidence = min (real (length matched) / real (length kws)) 1\<rparr>]
            else prods))"

definition analyzeProducts :: "string \<Rightarrow> ProductAnalysis list" where
  "analyzeProducts text =
     sort_key (\<lambda>p. - prod_confidence p) (fold (productEntry text) productKeywords [])"

text \<open>\<open>generateTags\<close>: \<open>tags\<close> starts as the marker alone and every rule pushes at its end.\<close>

definition priorityName :: "PriorityLevel \<Rightarrow> string" where
  "priorityName p = (case p of Urgent \<Rightarrow> ''urgent'' | High \<Rightarrow> ''high''
                      | Normal \<Rightarrow> ''normal'' | Low \<Rightarrow> ''low'')"

definition sentimentName :: "Sentiment \<Rightarrow> string" where
  "sentimentName s = (case s of Positive \<Rightarrow> ''positive'' | Negative \<Rightarrow> ''negative''
                       | Neutral \<Rightarrow> ''neutral'')"

definition highConfidenceStep :: "CategoryAnalysis \<Rightarrow> string list \<Rightarrow> string list" where
  "highConfidenceStep c tags =
     (if cat_confidence c > 0.6
      then (if category c = ''technical'' then tags @ [''needs-technical-review'']
            else if category c = ''billing'' then tags @ [''billing-inquiry'']
            else if category c = ''feature_request'' then tags @ [''feature-request'']
            else if category c = ''account'' then tags @ [''account-management'']
            else tags)
      else tags)"

definition generateTags :: "TicketAnalysis \<Rightarrow> string list" where
  "generateTags analysis =
     (let tags0 = [''auto-processed''];
          tags1 = (case categories analysis of
                     [] \<Rightarrow> tags0
                   | topCategory # _ \<Rightarrow>
                       if cat_confidence topCategory > 0.3
                       then tags0 @ [''category-'' @ category topCategory] else tags0);
          tags2 = (if level (priority analysis) \<noteq> Normal \<and> pri_confidence (priority analysis) > 0.5
                   then tags1 @ [''priority-'' @ priorityName (level (priority analysis))]
                   else tags1);
          tags3 = (if sentiment_label (sentiment analysis) \<noteq> Neutral
                      \<and> sen_confidence (sentiment analysis) > 0.4
                   then tags2 @ [''sentiment-'' @ sentimentName (sentiment_label (sentiment analysis))]
                   else tags2);
          tags4 = (case products analysis of
                     [] \<Rightarrow> tags3
                   | topProduct # _ \<Rightarrow>
                       if prod_confidence topProduct > 0.3
                       then tags3 @ [''product-'' @ product topProduct] else tags3);
          tags5 = fold highConfidenceStep (categories analysis) tags4
      in newSet tags5)"

text \<open>\<open>calculateConfidence\<close>: the pair \<open>(totalConfidence, factors)\<close> is threaded through the
  four additions; the category term and its factor are added only under the source's guard
  \<open>categories.length > 0\<close>.\<close>

definition lengthFactor :: "string \<Rightarrow> real" where
  "lengthFactor text = min (real (length text) / 500) 1"

definition calculateConfidence :: "TicketAnalysis \<Rightarrow> string \<Rightarrow> real" where
  "calculateConfidence analysis text =
     (let acc0 = (0 :: real, 0 :: nat);
          acc1 = (case categories analysis of
                    [] \<Rightarrow> acc0
                  | c # _ \<Rightarrow> (fst acc0 + cat_confidence c, snd acc0 + 1));
          acc2 = (fst acc1 + pri_confidence (priority analysis), snd acc1 + 1);
          acc3 = (fst acc2 + sen_confidence (sentiment analysis), snd acc2 + 1);
          acc4 = (fst acc3 + lengthFactor text, snd acc3 + 1)
      in if snd acc4 > 0 then fst acc4 / real (snd acc4) else 0)"

text \<open>\<open>ticket.fullText || ticket.description || ticket.subject || ''\<close>: an absent or empty
  string is falsy and gives way to the next operand.\<close>

definition orElse :: "string option \<Rightarrow> string \<Rightarrow> string" where
  "orElse a b = (case a of None \<Rightarrow> b | Some s \<Rightarrow> if s = [] then b else s)"

definition ticketText :: "ZendeskTicket \<Rightarrow> string" where
  "ticketText ticket =
     orElse (tk_fullText ticket) (orElse (tk_description ticket) (orElse (Some (tk_subject ticket)) []))"

definition analyzeTicket :: "ZendeskTicket \<Rightarrow> TicketAnalysis" where
  "analyzeTicket ticket =
     (let text = toLowerCase (ticketText ticket);
          analysis = \<lparr>ticketId = tk_id ticket,
                      categories = categorizeContent text,
                      priority = analyzePriority text,
                      sentiment = analyzeSentiment text,
                      products = analyzeProducts text,
                      suggestedTags = [],
                      confidence = 0\<rparr>;
          analysis1 = analysis\<lparr>suggestedTags := generateTags analysis\<rparr>
      in analysis1\<lparr>confidence := calculateConfidence analysis1 text\<rparr>)"

section \<open>Auto tagger\<close>

datatype TagStatus = Success | Error | Skipped | DryRun

text \<open>The reason strings are templates filled with numbers and messages; the model keeps the
  template and its arguments:
  \<^item> \<open>BelowThreshold c m\<close>: "Confidence c below threshold m";
  \<^item> \<open>NoNewTags\<close>: "No new tags to apply";
  \<^item> \<open>WouldApply n\<close>: "[DRY RUN] Would apply n tags";
  \<^item> \<open>FailedToApply msg\<close>: "Failed to apply tags: msg".\<close>

datatype Reason = BelowThreshold real real | NoNewTags | WouldApply nat | FailedToApply string

record 'r TaggingResult =
  res_ticketId :: int
  status :: TagStatus
  res_tags :: "string list option"
  res_confidence :: "real option"
  res_error :: "string option"
  reason :: "Reason option"
  response :: "'r option"

text \<open>The two fields of \<open>AutomationConfig\<close> that the tagger reads.\<close>

record AutomationConfig =
  dryRun :: bool
  minConfidence :: real

text \<open>The injected client: \<open>updateTicket(ticketId, {tags})\<close> acts on the remote side, a state
  of any type \<open>'w\<close>, and either returns the response or throws an \<open>Error\<close> with a message
  (\<open>Inl\<close>). Every call issued is logged with the tag list sent and whether it failed.\<close>

type_synonym ('w, 'r) updateTicket = "int \<Rightarrow> string list \<Rightarrow> 'w \<Rightarrow> (string + 'r) \<times> 'w"

record RemoteWrite =
  write_ticketId :: int
  write_tags :: "string list"
  write_failed :: bool

definition filterTags :: "string list \<Rightarrow> string list \<Rightarrow> string list" where
  "filterTags suggested currentTags =
     filter (\<lambda>tag. if tag \<in> set currentTags then False
                   else if tag = [] \<or> length (trim tag) = 0 then False
                   else True) suggested"

definition applyTags :: "('w, 'r) updateTicket \<Rightarrow> AutomationConfig \<Rightarrow> ZendeskTicket \<Rightarrow> TicketAnalysis
    \<Rightarrow> 'w \<Rightarrow> 'r TaggingResult \<times> 'w \<times> RemoteWrite list" where
  "applyTags client config ticket analysis w =
     (if confidence analysis < minConfidence config
      then (\<lparr>res_ticketId = tk_id ticket, status = Skipped, res_tags = None,
              res_confidence = Some (confidence analysis), res_error = None,
              reason = Some (BelowThreshold (confidence analysis) (minConfidence config)),
              response = None\<rparr>, w, [])
      else
        (let tagsToApply = filterTags (suggestedTags analysis) (tk_tags ticket)
         in if length tagsToApply = 0
            then (\<lparr>res_ticketId = tk_id ticket, status = Skipped,
                    res_tags = Some (suggestedTags analysis),
                    res_confidence = Some (confidence analysis), res_error = None,
                    reason = Some NoNewTags, response = None\<rparr>, w, [])
            else
              (let newTags = newSet (tk_tags ticket @ tagsToApply)
               in if dryRun config
                  then (\<lparr>res_ticketId = tk_id ticket, status = DryRun,
                          res_tags = Some tagsToApply,
                          res_confidence = Some (confidence analysis), res_error = None,
                          reason = Some (WouldApply (length tagsToApply)), response = None\<rparr>, w, [])
                  else
                    (case client (tk_id ticket) newTags w of
                       (Inr updatedTicket, w') \<Rightarrow>
                         (\<lparr>res_ticketId = tk_id ticket, status = Success,
                           res_tags = Some tagsToApply,
                           res_confidence = Some (confidence analysis), res_error = None,
                           reason = None, response = Some updatedTicket\<rparr>, w',
                          [\<lparr>write_ticketId = tk_id ticket, write_tags = newTags,
                            write_failed = False\<rparr>])
                     | (Inl message, w') \<Rightarrow>
                         (\<lparr>res_ticketId = tk_id ticket, status = Error, res_tags = None,
                           res_confidence = Some (confidence analysis),
                           res_error = Some message,
                           reason = Some (FailedToApply message), response = None\<rparr>, w',
                          [\<lparr>write_ticketId = tk_id ticket, write_tags = newTags,
                            write_failed = True\<rparr>])))))"

record 'r BatchTaggingResults =
  total :: nat
  success :: nat
  skipped :: nat
  errors :: nat
  details :: "'r TaggingResult list"

text \<open>The state of the loop of \<open>batchApplyTags\<close>, with the remote side and the log of writes.\<close>

record ('w, 'r) BatchState =
  results :: "'r TaggingResult list"
  successCount :: nat
  skipCount :: nat
  errorCount :: nat
  world :: 'w
  writes :: "RemoteWrite list"

text \<open>\<open>tickets.forEach(ticket => ticketMap.set(ticket.id, ticket))\<close>: a later ticket with the
  same id replaces an earlier one.\<close>

definition buildTicketMap :: "ZendeskTicket list \<Rightarrow> (int \<rightharpoonup> ZendeskTicket)" where
  "buildTicketMap tickets = fold (\<lambda>ticket m. m(tk_id ticket \<mapsto> ticket)) tickets Map.empty"

text \<open>One iteration of the loop. An analysis is an element of a \<open>TicketAnalysis[]\<close>, so the
  guard for a missing element never fires. \<open>applyTags\<close> catches every exception of its body
  and the delay cannot throw, so the \<open>catch\<close> of the loop body is never entered; the delay
  and the console output have no part in the result.\<close>

definition batchStep :: "('w, 'r) updateTicket \<Rightarrow> AutomationConfig \<Rightarrow> (int \<rightharpoonup> ZendeskTicket)
    \<Rightarrow> TicketAnalysis \<Rightarrow> ('w, 'r) BatchState \<Rightarrow> ('w, 'r) BatchState" where
  "batchStep client config ticketMap analysis st =
     (case ticketMap (ticketId analysis) of
        None \<Rightarrow> st\<lparr>errorCount := errorCount st + 1\<rparr>
      | Some ticket \<Rightarrow>
          (case applyTags client config ticket analysis (world st) of
             (result, w', calls) \<Rightarrow>
               (let st1 = st\<lparr>results := results st @ [result], world := w',
                              writes := writes st @ calls\<rparr>
                in if status result = Success then st1\<lparr>successCount := successCount st1 + 1\<rparr>
                   else if status result = Skipped \<or> status result = DryRun
                   then st1\<lparr>skipCount := skipCount st1 + 1\<rparr>
                   else st1\<lparr>errorCount := errorCount st1 + 1\<rparr>)))"

definition batchLoop :: "('w, 'r) updateTicket \<Rightarrow> AutomationConfig \<Rightarrow> TicketAnalysis list
    \<Rightarrow> ZendeskTicket list \<Rightarrow> 'w \<Rightarrow> ('w, 'r) BatchState" where
  "batchLoop client config analysisResults tickets w =
     fold (batchStep client config (buildTicketMap tickets)) analysisResults
       \<lparr>results = [], successCount = 0, skipCount = 0, errorCount = 0, world = w, writes = []\<rparr>"

definition batchApplyTags :: "('w, 'r) updateTicket \<Rightarrow> AutomationConfig \<Rightarrow> TicketAnalysis list
    \<Rightarrow> ZendeskTicket list \<Rightarrow> 'w \<Rightarrow> 'r BatchTaggingResults \<times> 'w \<times> RemoteWrite list" where
  "batchApplyTags client config analysisResults tickets w =
     (let st = batchLoop client config analysisResults tickets w
      in (\<lparr>total = length analysisResults, success = successCount st, skipped = skipCount st,
           errors = errorCount st, details = results st\<rparr>, world st, writes st))"

section \<open>Notions used to state the properties\<close>

text \<open>A list with every element kept at its first occurrence only: position \<open>i\<close> survives
  when its element does not occur before \<open>i\<close>.\<close>

definition firstOccurrences :: "'a list \<Rightarrow> 'a list" where
  "firstOccurrences xs =
     map (\<lambda>i. xs ! i) (filter (\<lambda>i. xs ! i \<notin> set (take i xs)) [0..<length xs])"

text \<open>The secondary tag of a category label, as a lookup table.\<close>

definition secondaryTag :: "string \<Rightarrow> string option" where
  "secondaryTag label =
     map_of [(''technical'', ''needs-technical-review''), (''billing'', ''billing-inquiry''),
             (''feature_request'', ''feature-request''), (''account'', ''account-management'')]
       label"

text \<open>The tag policy as the specification words it: the tags prescribed by rules 1 to 6, in
  that order, before de-duplication.\<close>

definition policyTags :: "TicketAnalysis \<Rightarrow> string list" where
  "policyTags a =
     [''auto-processed'']
     @ (if categories a \<noteq> [] \<and> cat_confidence (hd (categories a)) > 0.3
        then [''category-'' @ category (hd (categories a))] else [])
     @ (if level (priority a) \<noteq> Normal \<and> pri_confidence (priority a) > 0.5
        then [''priority-'' @ priorityName (level (priority a))] else [])
     @ (if sentiment_label (sentiment a) \<noteq> Neutral \<and> sen_confidence (sentiment a) > 0.4
        then [''sentiment-'' @ sentimentName (sentiment_label (sentiment a))] else [])
     @ (if products a \<noteq> [] \<and> prod_confidence (hd (products a)) > 0.3
        then [''product-'' @ product (hd (products a))] else [])
     @ concat (map (\<lambda>c. case secondaryTag (category c) of Some t \<Rightarrow> [t] | None \<Rightarrow> [])
                 (filter (\<lambda>c. cat_confidence c > 0.6) (categories a)))"

text \<open>A priority tier matches a text when one of its keywords occurs in it.\<close>

definition tierMatches :: "string \<Rightarrow> KeywordRule \<Rightarrow> bool" where
  "tierMatches text r = list_ex (str_includes text) (rule_keywords r)"

definition matchedTiers :: "string \<Rightarrow> (PriorityLevel \<times> KeywordRule) list" where
  "matchedTiers text = filter (\<lambda>entry. tierMatches text (snd entry)) priorityKeywords"

text \<open>Case-insensitive occurrence: both sides are compared in lower case.\<close>

definition ciIncludes :: "string \<Rightarrow> string \<Rightarrow> bool" where
  "ciIncludes text w = str_includes (toLowerCase text) (toLowerCase w)"

text \<open>Every keyword of the four dimensions.\<close>

definition allKeywords :: "string list" where
  "allKeywords =
     concat (map (\<lambda>entry. rule_keywords (snd entry)) categoryKeywords)
     @ concat (map (\<lambda>entry. rule_keywords (snd entry)) priorityKeywords)
     @ positiveWordList @ negativeWordList
     @ concat (map snd productKeywords)"

definition noKeywordMatch :: "string \<Rightarrow> bool" where
  "noKeywordMatch text = list_all (\<lambda>k. \<not> str_includes text k) allKeywords"

text \<open>An empty or white-space-only string.\<close>

definition blank :: "string \<Rightarrow> bool" where
  "blank tag = list_all isWhitespace tag"

text \<open>The analyses of a batch whose ticket is among the tickets passed with them.\<close>

definition found :: "ZendeskTicket list \<Rightarrow> TicketAnalysis \<Rightarrow> bool" where
  "found tickets a = (ticketId a \<in> tk_id ` set tickets)"

definition countStatus :: "TagStatus \<Rightarrow> 'r TaggingResult list \<Rightarrow> nat" where
  "countStatus s rs = length (filter (\<lambda>r. status r = s) rs)"

text \<open>Fixtures for the concrete instances: a ticket with the given full text and no tags, an
  analysis with the given suggested tags and confidence, and two clients on a remote side
  that counts the writes received, one accepting every write and one rejecting the writes
  to ticket 2.\<close>

definition textTicket :: "string \<Rightarrow> ZendeskTicket" where
  "textTicket s = \<lparr>tk_id = 1, tk_subject = [], tk_description = None, tk_tags = [],
                   tk_fullText = Some s\<rparr>"

definition taggedTicket :: "int \<Rightarrow> string list \<Rightarrow> ZendeskTicket" where
  "taggedTicket i ts = \<lparr>tk_id = i, tk_subject = [], tk_description = None, tk_tags = ts,
                       tk_fullText = None\<rparr>"

definition tagAnalysis :: "int \<Rightarrow> string list \<Rightarrow> real \<Rightarrow> TicketAnalysis" where
  "tagAnalysis i ts c =
     \<lparr>ticketId = i, categories = [],
      priority = \<lparr>level = Normal, pri_score = 0, pri_matchedKeywords = [], pri_confidence = 1 / 2\<rparr>,
      sentiment = \<lparr>sentiment_label = Neutral, sen_score = 0, positiveWords = [],
                   negativeWords = [], sen_confidence = 0\<rparr>,
      products = [], suggestedTags = ts, confidence = c\<rparr>"

definition okClient :: "(nat, unit) updateTicket" where
  "okClient i ts n = (Inr (), n + 1)"

definition flakyClient :: "(nat, unit) updateTicket" where
  "flakyClient i ts n = (if i = 2 then (Inl ''Failed to update ticket 2'', n + 1) else (Inr (), n + 1))"

text \<open>The invariant of the loop after some analyses, \<open>n\<close> of which had no ticket.\<close>

definition batchInv :: "('w, 'r) BatchState \<Rightarrow> nat \<Rightarrow> bool" where
  "batchInv st n \<longleftrightarrow>
     successCount st = countStatus Success (results st)
   \<and> skipCount st = countStatus Skipped (results st) + countStatus DryRun (results st)
   \<and> errorCount st = n + countStatus Error (results st)
   \<and> countStatus Error (results st) = length (filter write_failed (writes st))
   \<and> length (writes st) = countStatus Success (results st) + countStatus Error (results st)"

section \<open>Strings and sets: basic facts\<close>

lemma str_includes_sublist: "str_includes t k \<longleftrightarrow> sublist k t"
  by (induction t) (auto simp: sublist_Cons_right)

lemma newSet_snoc: "newSet (xs @ [x]) = setAdd x (newSet xs)"
  by (simp add: newSet_def)

lemma set_newSet: "set (newSet xs) = set xs"
  by (induction xs rule: rev_induct) (auto simp: newSet_snoc setAdd_def newSet_def)

lemma distinct_newSet: "distinct (newSet xs)"
  by (induction xs rule: rev_induct) (auto simp: newSet_snoc setAdd_def newSet_def)

lemma firstOccurrences_snoc:
  "firstOccurrences (xs @ [x]) = firstOccurrences xs @ (if x \<in> set xs then [] else [x])"
proof -
  have m: "map (\<lambda>i. (xs @ [x]) ! i) (filter (\<lambda>i. (xs @ [x]) ! i \<notin> set (take i (xs @ [x]))) [0..<length xs])
         = map (\<lambda>i. xs ! i) (filter (\<lambda>i. xs ! i \<notin> set (take i xs)) [0..<length xs])"
  proof -
    have f: "filter (\<lambda>i. (xs @ [x]) ! i \<notin> set (take i (xs @ [x]))) [0..<length xs]
           = filter (\<lambda>i. xs ! i \<notin> set (take i xs)) [0..<length xs]"
      by (rule filter_cong) (auto simp: nth_append)
    show ?thesis
      unfolding f by (rule map_cong) (auto simp: nth_append)
  qed
  show ?thesis
    using m by (simp add: firstOccurrences_def)
qed

lemma newSet_firstOccurrences: "newSet xs = firstOccurrences xs"
proof (induction xs rule: rev_induct)
  case Nil
  show ?case by (simp add: newSet_def firstOccurrences_def)
next
  case (snoc x xs)
  then show ?case
    using set_newSet [of xs] by (simp add: newSet_snoc firstOccurrences_snoc setAdd_def)
qed

lemma trim_empty_iff: "length (trim t) = 0 \<longleftrightarrow> blank t"
proof -
  let ?d = "dropWhile isWhitespace t"
  have a: "trim t = [] \<longleftrightarrow> (\<forall>x\<in>set ?d. isWhitespace x)"
    by (simp add: trim_def)
  have b: "(\<forall>x\<in>set ?d. isWhitespace x) \<longleftrightarrow> ?d = []"
  proof
    assume h: "\<forall>x\<in>set ?d. isWhitespace x"
    show "?d = []"
    proof (rule ccontr)
      assume n: "?d \<noteq> []"
      then have "\<not> isWhitespace (hd ?d)" by (rule hd_dropWhile)
      moreover have "hd ?d \<in> set ?d" using n by (rule hd_in_set)
      ultimately show False using h by blast
    qed
  next
    assume e: "?d = []"
    show "\<forall>x\<in>set ?d. isWhitespace x" unfolding e by simp
  qed
  have c: "?d = [] \<longleftrightarrow> blank t"
    by (simp add: blank_def list_all_iff)
  show ?thesis using a b c by (simp only: length_0_conv)
qed

section \<open>Tag filtering\<close>

lemma filterTags_filter:
  "filterTags suggested current = filter (\<lambda>tag. tag \<notin> set current \<and> \<not> blank tag) suggested"
proof -
  have "\<And>tag. (if tag \<in> set current then False
               else if tag = [] \<or> length (trim tag) = 0 then False else True)
             = (tag \<notin> set current \<and> \<not> blank tag)"
    using trim_empty_iff by (auto simp: blank_def)
  then show ?thesis by (simp add: filterTags_def)
qed

text \<open>
  C10. The tags to apply are the suggested tags, in their order, without those already on the
  ticket and without the empty and the white-space-only ones; hence none of the tags to apply
  is on the ticket or blank, whatever the generator produced.
\<close>

theorem filterTags_drops_present_and_blank:
  "filterTags suggested current = filter (\<lambda>tag. tag \<notin> set current \<and> \<not> blank tag) suggested
   \<and> (\<forall>tag \<in> set (filterTags suggested current).
         tag \<in> set suggested \<and> tag \<notin> set current \<and> tag \<noteq> [] \<and> \<not> list_all isWhitespace tag)"
  by (auto simp: filterTags_filter blank_def)

theorem filterTags_drops_present_and_blank_witness:
  "filterTags [''billing'', '''', ''   '', ''vip'', [CHR 0x09, CHR 0x20], ''auto-processed''] [''vip'']
     = [''billing'', ''auto-processed'']"
proof -
  have e: "filter (\<lambda>tag. tag \<notin> set [''vip''] \<and> \<not> blank tag)
             [''billing'', '''', ''   '', ''vip'', [CHR 0x09, CHR 0x20], ''auto-processed'']
           = [''billing'', ''auto-processed'']"
    by (simp add: blank_def isWhitespace_def)
  show ?thesis
    using filterTags_drops_present_and_blank
            [of "[''billing'', '''', ''   '', ''vip'', [CHR 0x09, CHR 0x20], ''auto-processed'']" "[''vip'']"]
    unfolding e by simp
qed

section \<open>Applying tags to one ticket\<close>

text \<open>
  C7. \<open>applyTags\<close> reports the below-threshold skip exactly when the confidence is strictly
  below \<open>minConfidence\<close>; on that path the remote side is untouched and no write is issued.
  A confidence equal to \<open>minConfidence\<close> does not take it.
\<close>

theorem applyTags_threshold:
  "(reason (fst (applyTags client config ticket analysis w))
       = Some (BelowThreshold (confidence analysis) (minConfidence config))
     \<longleftrightarrow> confidence analysis < minConfidence config)
   \<and> (confidence analysis < minConfidence config \<longrightarrow>
        applyTags client config ticket analysis w
          = (\<lparr>res_ticketId = tk_id ticket, status = Skipped, res_tags = None,
               res_confidence = Some (confidence analysis), res_error = None,
               reason = Some (BelowThreshold (confidence analysis) (minConfidence config)),
               response = None\<rparr>, w, []))
   \<and> (confidence analysis = minConfidence config \<longrightarrow>
        reason (fst (applyTags client config ticket analysis w))
          \<noteq> Some (BelowThreshold (confidence analysis) (minConfidence config)))"
  by (auto simp: applyTags_def Let_def split: prod.splits sum.splits)

theorem applyTags_threshold_witness:
  "(0.5 :: real) < 0.7
   \<and> applyTags okClient \<lparr>dryRun = False, minConfidence = 0.7\<rparr> (taggedTicket 1 [])
         (tagAnalysis 1 [''auto-processed''] 0.5) 0
       = (\<lparr>res_ticketId = 1, status = Skipped, res_tags = None, res_confidence = Some 0.5,
            res_error = None, reason = Some (BelowThreshold 0.5 0.7), response = None\<rparr>, 0, [])
   \<and> reason (fst (applyTags okClient \<lparr>dryRun = False, minConfidence = 0.7\<rparr> (taggedTicket 1 [])
         (tagAnalysis 1 [''auto-processed''] 0.7) 0)) \<noteq> Some (BelowThreshold 0.7 0.7)"
  using applyTags_threshold [of okClient "\<lparr>dryRun = False, minConfidence = 0.7\<rparr>"
          "taggedTicket 1 []" "tagAnalysis 1 [''auto-processed''] 0.5" 0]
        applyTags_threshold [of okClient "\<lparr>dryRun = False, minConfidence = 0.7\<rparr>"
          "taggedTicket 1 []" "tagAnalysis 1 [''auto-processed''] 0.7" 0]
  by (simp add: tagAnalysis_def taggedTicket_def)

text \<open>
  C9. In dry-run mode, with the confidence at or above the threshold and some tag to apply,
  \<open>applyTags\<close> leaves the remote side as it is, issues no write and returns the status
  dry-run with exactly the tags to apply. In any mode a write is issued only past the three
  gates (threshold met, some tag to apply, dry-run off), it is then the single write of the
  merged tag list, and the status success is reached only through a write that did not fail.
\<close>

theorem applyTags_dry_run_no_write:
  "(dryRun config \<and> \<not> confidence analysis < minConfidence config
      \<and> filterTags (suggestedTags analysis) (tk_tags ticket) \<noteq> [] \<longrightarrow>
      applyTags client config ticket analysis w
        = (\<lparr>res_ticketId = tk_id ticket, status = DryRun,
             res_tags = Some (filterTags (suggestedTags analysis) (tk_tags ticket)),
             res_confidence = Some (confidence analysis), res_error = None,
             reason = Some (WouldApply (length (filterTags (suggestedTags analysis) (tk_tags ticket)))),
             response = None\<rparr>, w, []))
   \<and> (snd (snd (applyTags client config ticket analysis w)) \<noteq> [] \<longrightarrow>
        \<not> dryRun config \<and> \<not> confidence analysis < minConfidence config
        \<and> filterTags (suggestedTags analysis) (tk_tags ticket) \<noteq> []
        \<and> map write_ticketId (snd (snd (applyTags client config ticket analysis w))) = [tk_id ticket]
        \<and> map write_tags (snd (snd (applyTags client config ticket analysis w)))
            = [newSet (tk_tags ticket @ filterTags (suggestedTags analysis) (tk_tags ticket))])
   \<and> (status (fst (applyTags client config ticket analysis w)) = Success \<longrightarrow>
        map write_failed (snd (snd (applyTags client config ticket analysis w))) = [False])"
  by (auto simp: applyTags_def Let_def split: prod.splits sum.splits)

theorem applyTags_dry_run_no_write_witness:
  "applyTags okClient \<lparr>dryRun = True, minConfidence = 0.7\<rparr> (taggedTicket 1 [''vip''])
         (tagAnalysis 1 [''auto-processed'', ''vip'', ''priority-urgent''] 0.8) 0
       = (\<lparr>res_ticketId = 1, status = DryRun,
            res_tags = Some [''auto-processed'', ''priority-urgent''],
            res_confidence = Some 0.8, res_error = None, reason = Some (WouldApply 2),
            response = None\<rparr>, 0, [])
   \<and> map write_tags (snd (snd (applyTags okClient \<lparr>dryRun = False, minConfidence = 0.7\<rparr>
         (taggedTicket 1 [''vip''])
         (tagAnalysis 1 [''auto-processed'', ''vip'', ''priority-urgent''] 0.8) 0)))
       = [[''vip'', ''auto-processed'', ''priority-urgent'']]"
proof -
  have f: "filterTags [''auto-processed'', ''vip'', ''priority-urgent''] [''vip'']
           = [''auto-processed'', ''priority-urgent'']"
    by (simp add: filterTags_filter blank_def isWhitespace_def)
  have n: "newSet [''vip'', ''auto-processed'', ''priority-urgent'']
           = [''vip'', ''auto-processed'', ''priority-urgent'']"
    by (simp add: newSet_def setAdd_def)
  have g: "snd (snd (applyTags okClient \<lparr>dryRun = False, minConfidence = 0.7\<rparr>
         (taggedTicket 1 [''vip''])
         (tagAnalysis 1 [''auto-processed'', ''vip'', ''priority-urgent''] 0.8) 0)) \<noteq> []"
    by (simp add: applyTags_def Let_def tagAnalysis_def taggedTicket_def okClient_def f)
  show ?thesis
    using applyTags_dry_run_no_write [of "\<lparr>dryRun = True, minConfidence = 0.7\<rparr>"
            "tagAnalysis 1 [''auto-processed'', ''vip'', ''priority-urgent''] 0.8"
            "taggedTicket 1 [''vip'']" okClient 0]
          applyTags_dry_run_no_write [of "\<lparr>dryRun = False, minConfidence = 0.7\<rparr>"
            "tagAnalysis 1 [''auto-processed'', ''vip'', ''priority-urgent''] 0.8"
            "taggedTicket 1 [''vip'']" okClient 0] g
    by (simp add: tagAnalysis_def taggedTicket_def f n)
qed

text \<open>
  C2. When every suggested tag is already on the ticket and the confidence meets the
  threshold, \<open>applyTags\<close> returns the skip "No new tags to apply", leaves the remote side as it
  is and issues no write. The tag list written by a first application is such a state: with
  the ticket's tags replaced by it, the same analysis reaches that skip.
\<close>

theorem applyTags_second_application_skips:
  "(set (suggestedTags analysis) \<subseteq> set (tk_tags ticket)
      \<and> \<not> confidence analysis < minConfidence config \<longrightarrow>
      applyTags client config ticket analysis w
        = (\<lparr>res_ticketId = tk_id ticket, status = Skipped,
             res_tags = Some (suggestedTags analysis),
             res_confidence = Some (confidence analysis), res_error = None,
             reason = Some NoNewTags, response = None\<rparr>, w, []))
   \<and> (\<not> confidence analysis < minConfidence config \<longrightarrow>
        applyTags client config
          (ticket\<lparr>tk_tags := newSet (tk_tags ticket @ filterTags (suggestedTags analysis) (tk_tags ticket))\<rparr>)
          analysis w
        = (\<lparr>res_ticketId = tk_id ticket, status = Skipped,
             res_tags = Some (suggestedTags analysis),
             res_confidence = Some (confidence analysis), res_error = None,
             reason = Some NoNewTags, response = None\<rparr>, w, []))"
proof -
  have a: "filterTags s c = []" if "set s \<subseteq> set c" for s c :: "string list"
    using that by (auto simp: filterTags_filter filter_empty_conv)
  have b: "filterTags s (newSet (c @ filterTags s c)) = []" for s c :: "string list"
    by (auto simp: filterTags_filter filter_empty_conv set_newSet)
  show ?thesis
    by (simp add: applyTags_def a b)
qed

theorem applyTags_second_application_skips_witness:
  "applyTags okClient \<lparr>dryRun = False, minConfidence = 0.7\<rparr>
         (taggedTicket 1 [''vip'', ''auto-processed'', ''priority-urgent''])
         (tagAnalysis 1 [''auto-processed'', ''vip'', ''priority-urgent''] 0.8) 1
       = (\<lparr>res_ticketId = 1, status = Skipped,
            res_tags = Some [''auto-processed'', ''vip'', ''priority-urgent''],
            res_confidence = Some 0.8, res_error = None, reason = Some NoNewTags,
            response = None\<rparr>, 1, [])"
  using applyTags_second_application_skips [of
          "tagAnalysis 1 [''auto-processed'', ''vip'', ''priority-urgent''] 0.8"
          "taggedTicket 1 [''vip'', ''auto-processed'', ''priority-urgent'']"
          "\<lparr>dryRun = False, minConfidence = 0.7\<rparr>" okClient 1]
  by (simp add: tagAnalysis_def taggedTicket_def)

section \<open>Batch tagging\<close>

lemma fold_ticketMap_key:
  "\<forall>k t. m k = Some t \<longrightarrow> k = tk_id t \<Longrightarrow>
   fold (\<lambda>ticket m. m(tk_id ticket \<mapsto> ticket)) tickets m k = Some t \<Longrightarrow> k = tk_id t"
proof (induction tickets arbitrary: m)
  case Nil
  then show ?case by auto
next
  case (Cons x xs)
  have "\<forall>k t. (m(tk_id x \<mapsto> x)) k = Some t \<longrightarrow> k = tk_id t"
    using Cons.prems(1) by auto
  from Cons.IH [OF this] Cons.prems(2) show ?case by simp
qed

lemma buildTicketMap_key: "buildTicketMap tickets k = Some t \<Longrightarrow> tk_id t = k"
  using fold_ticketMap_key [of Map.empty tickets k t] by (simp add: buildTicketMap_def)

lemma fold_ticketMap_dom:
  "dom (fold (\<lambda>ticket m. m(tk_id ticket \<mapsto> ticket)) tickets m) = dom m \<union> tk_id ` set tickets"
  by (induction tickets arbitrary: m) auto

lemma buildTicketMap_found: "buildTicketMap tickets (ticketId a) \<noteq> None \<longleftrightarrow> found tickets a"
  using fold_ticketMap_dom [of tickets Map.empty]
  by (auto simp: buildTicketMap_def found_def dom_def)

lemma applyTags_summary:
  assumes "applyTags client config ticket analysis w = (r, w', calls)"
  shows "res_ticketId r = tk_id ticket"
    and "length (filter write_failed calls) = (if status r = Error then 1 else 0)"
    and "length calls = (if status r = Success \<or> status r = Error then 1 else 0)"
proof -
  let ?tags = "filterTags (suggestedTags analysis) (tk_tags ticket)"
  let ?new = "newSet (tk_tags ticket @ ?tags)"
  have "res_ticketId r = tk_id ticket
      \<and> length (filter write_failed calls) = (if status r = Error then 1 else 0)
      \<and> length calls = (if status r = Success \<or> status r = Error then 1 else 0)"
  proof (cases "confidence analysis < minConfidence config")
    case True
    then show ?thesis
      using assms by (auto simp: applyTags_def)
  next
    case c1: False
    show ?thesis
    proof (cases "?tags = []")
      case True
      then show ?thesis
        using assms c1 by (auto simp: applyTags_def)
    next
      case c2: False
      show ?thesis
      proof (cases "dryRun config")
        case True
        then show ?thesis
          using assms c1 c2 by (auto simp: applyTags_def Let_def)
      next
        case False
        obtain x w1 where c: "client (tk_id ticket) ?new w = (x, w1)"
          by (cases "client (tk_id ticket) ?new w") auto
        show ?thesis
        proof (cases x)
          case (Inl message)
          then show ?thesis
            using assms False c1 c2 c by (auto simp: applyTags_def Let_def)
        next
          case (Inr updated)
          then show ?thesis
            using assms False c1 c2 c by (auto simp: applyTags_def Let_def)
        qed
      qed
    qed
  qed
  then show "res_ticketId r = tk_id ticket"
    and "length (filter write_failed calls) = (if status r = Error then 1 else 0)"
    and "length calls = (if status r = Success \<or> status r = Error then 1 else 0)"
    by simp_all
qed

lemma countStatus_partition:
  "countStatus Success rs + countStatus Skipped rs + countStatus DryRun rs + countStatus Error rs
     = length rs"
proof (induction rs)
  case Nil
  show ?case by (simp add: countStatus_def)
next
  case (Cons r rs)
  then show ?case by (cases "status r") (simp_all add: countStatus_def)
qed

lemma batchStep_missing:
  assumes "\<not> found tickets a"
  shows "batchStep client config (buildTicketMap tickets) a st = st\<lparr>errorCount := errorCount st + 1\<rparr>"
  using assms buildTicketMap_found [of tickets a] by (simp add: batchStep_def)

lemma batchStep_found:
  assumes "found tickets a" and "batchInv st n"
  shows "batchInv (batchStep client config (buildTicketMap tickets) a st) n
       \<and> map res_ticketId (results (batchStep client config (buildTicketMap tickets) a st))
           = map res_ticketId (results st) @ [ticketId a]"
proof -
  obtain ticket where t: "buildTicketMap tickets (ticketId a) = Some ticket"
    using assms(1) buildTicketMap_found [of tickets a] by auto
  then have k: "tk_id ticket = ticketId a" by (rule buildTicketMap_key)
  obtain r w' calls where ap: "applyTags client config ticket a (world st) = (r, w', calls)"
    by (cases "applyTags client config ticket a (world st)") auto
  note s = applyTags_summary [OF ap]
  let ?st1 = "st\<lparr>results := results st @ [r], world := w', writes := writes st @ calls\<rparr>"
  have step: "batchStep client config (buildTicketMap tickets) a st
      = (if status r = Success then ?st1\<lparr>successCount := successCount st + 1\<rparr>
         else if status r = Skipped \<or> status r = DryRun
         then ?st1\<lparr>skipCount := skipCount st + 1\<rparr>
         else ?st1\<lparr>errorCount := errorCount st + 1\<rparr>)"
    by (simp add: batchStep_def t ap Let_def)
  show ?thesis
  proof (cases "status r")
    case Success
    then show ?thesis
      using assms(2) s k unfolding step by (simp add: batchInv_def countStatus_def)
  next
    case Error
    then show ?thesis
      using assms(2) s k unfolding step by (simp add: batchInv_def countStatus_def)
  next
    case Skipped
    then show ?thesis
      using assms(2) s k unfolding step by (simp add: batchInv_def countStatus_def)
  next
    case DryRun
    then show ?thesis
      using assms(2) s k unfolding step by (simp add: batchInv_def countStatus_def)
  qed
qed

lemma batchLoop_invariant:
  "batchInv st n \<Longrightarrow>
   batchInv (fold (batchStep client config (buildTicketMap tickets)) as st)
            (n + length (filter (\<lambda>a. \<not> found tickets a) as))
   \<and> map res_ticketId (results (fold (batchStep client config (buildTicketMap tickets)) as st))
       = map res_ticketId (results st) @ map ticketId (filter (found tickets) as)"
proof (induction as arbitrary: st n)
  case Nil
  then show ?case by simp
next
  case (Cons a as)
  show ?case
  proof (cases "found tickets a")
    case True
    from batchStep_found [OF True Cons.prems, of client config]
    have i: "batchInv (batchStep client config (buildTicketMap tickets) a st) n"
      and m: "map res_ticketId (results (batchStep client config (buildTicketMap tickets) a st))
               = map res_ticketId (results st) @ [ticketId a]"
      by simp_all
    show ?thesis
      using Cons.IH [OF i] m True by simp
  next
    case False
    have i: "batchInv (st\<lparr>errorCount := errorCount st + 1\<rparr>) (Suc n)"
      using Cons.prems by (simp add: batchInv_def)
    show ?thesis
      using Cons.IH [OF i] False by (simp add: batchStep_missing)
  qed
qed

text \<open>
  C6 (as the code has it). A batch returns, without failing, a result whose \<open>details\<close> hold one
  outcome, in order, for every analysis whose ticket is among the tickets passed; an analysis
  without a ticket adds one to \<open>errors\<close> and no outcome, and the loop goes on. The three
  counters add up to \<open>total\<close>, the number of analyses. The outcomes with status error are as
  many as the writes that failed, so one failing write gives exactly one error outcome, and
  the items after it are processed.
\<close>

theorem batchApplyTags_outcomes:
  assumes "batchApplyTags client config analyses tickets w = (res, w', wlog)"
  shows "total res = length analyses
       \<and> map res_ticketId (details res) = map ticketId (filter (found tickets) analyses)
       \<and> success res = countStatus Success (details res)
       \<and> skipped res = countStatus Skipped (details res) + countStatus DryRun (details res)
       \<and> errors res = length (filter (\<lambda>a. \<not> found tickets a) analyses)
                        + countStatus Error (details res)
       \<and> success res + skipped res + errors res = total res
       \<and> countStatus Error (details res) = length (filter write_failed wlog)"
proof -
  let ?init = "\<lparr>results = [], successCount = 0, skipCount = 0, errorCount = 0, world = w,
               writes = []\<rparr>"
  let ?st = "batchLoop client config analyses tickets w"
  have i0: "batchInv ?init 0"
    by (simp add: batchInv_def countStatus_def)
  from batchLoop_invariant [OF i0, of client config tickets analyses]
  have inv: "batchInv ?st (length (filter (\<lambda>a. \<not> found tickets a) analyses))"
    and ids: "map res_ticketId (results ?st) = map ticketId (filter (found tickets) analyses)"
    by (simp_all add: batchLoop_def)
  have r: "res = \<lparr>total = length analyses, success = successCount ?st, skipped = skipCount ?st,
                  errors = errorCount ?st, details = results ?st\<rparr>"
    and l: "wlog = writes ?st"
    using assms by (simp_all add: batchApplyTags_def Let_def)
  have len: "length (results ?st) = length (filter (found tickets) analyses)"
    using arg_cong [OF ids, of length] by simp
  have split: "length analyses = length (filter (found tickets) analyses)
                 + length (filter (\<lambda>a. \<not> found tickets a) analyses)"
    by (rule sum_length_filter_compl [symmetric])
  show ?thesis
    using inv ids len split countStatus_partition [of "results ?st"]
    unfolding r l batchInv_def by simp
qed


theorem batchApplyTags_outcomes_witness:
  "map res_ticketId (details (fst (batchApplyTags flakyClient \<lparr>dryRun = False, minConfidence = 0.7\<rparr>
       [tagAnalysis 1 [''auto-processed''] 0.8, tagAnalysis 2 [''auto-processed''] 0.8,
        tagAnalysis 9 [''auto-processed''] 0.8, tagAnalysis 3 [''auto-processed''] 0.8]
       [taggedTicket 1 [], taggedTicket 2 [], taggedTicket 3 []] 0))) = [1, 2, 3]
   \<and> map status (details (fst (batchApplyTags flakyClient \<lparr>dryRun = False, minConfidence = 0.7\<rparr>
       [tagAnalysis 1 [''auto-processed''] 0.8, tagAnalysis 2 [''auto-processed''] 0.8,
        tagAnalysis 9 [''auto-processed''] 0.8, tagAnalysis 3 [''auto-processed''] 0.8]
       [taggedTicket 1 [], taggedTicket 2 [], taggedTicket 3 []] 0))) = [Success, Error, Success]
   \<and> errors (fst (batchApplyTags flakyClient \<lparr>dryRun = False, minConfidence = 0.7\<rparr>
       [tagAnalysis 1 [''auto-processed''] 0.8, tagAnalysis 2 [''auto-processed''] 0.8,
        tagAnalysis 9 [''auto-processed''] 0.8, tagAnalysis 3 [''auto-processed''] 0.8]
       [taggedTicket 1 [], taggedTicket 2 [], taggedTicket 3 []] 0)) = 2"
proof -
  let ?b = "batchApplyTags flakyClient \<lparr>dryRun = False, minConfidence = 0.7\<rparr>
       [tagAnalysis 1 [''auto-processed''] 0.8, tagAnalysis 2 [''auto-processed''] 0.8,
        tagAnalysis 9 [''auto-processed''] 0.8, tagAnalysis 3 [''auto-processed''] 0.8]
       [taggedTicket 1 [], taggedTicket 2 [], taggedTicket 3 []] 0"
  have f: "filterTags [''auto-processed''] [] = [''auto-processed'']"
    by (simp add: filterTags_filter blank_def isWhitespace_def)
  have s: "map status (details (fst ?b)) = [Success, Error, Success]"
    by (simp add: batchApplyTags_def batchLoop_def batchStep_def buildTicketMap_def
          applyTags_def Let_def tagAnalysis_def taggedTicket_def flakyClient_def f)
  have p: "?b = (fst ?b, fst (snd ?b), snd (snd ?b))"
    by simp
  have c: "countStatus Error (details (fst ?b)) = 1"
    using arg_cong [OF s, of "\<lambda>ss. length (filter (\<lambda>x. x = Error) ss)"]
    by (simp add: countStatus_def filter_map comp_def)
  show ?thesis
    using batchApplyTags_outcomes [OF p] s c
    by (simp add: found_def tagAnalysis_def taggedTicket_def)
qed

theorem batchApplyTags_missing_ticket_counterexample:
  "length (details (fst (batchApplyTags okClient \<lparr>dryRun = False, minConfidence = 0.7\<rparr>
       [tagAnalysis 9 [''auto-processed''] 0.8] [taggedTicket 1 []] 0)))
     \<noteq> length [tagAnalysis 9 [''auto-processed''] 0.8]
   \<and> errors (fst (batchApplyTags okClient \<lparr>dryRun = False, minConfidence = 0.7\<rparr>
       [tagAnalysis 9 [''auto-processed''] 0.8] [taggedTicket 1 []] 0)) = 1"
  by (simp add: batchApplyTags_def batchLoop_def batchStep_def buildTicketMap_def
        tagAnalysis_def taggedTicket_def)

section \<open>Keyword scans in closed form\<close>

lemma length_toLowerCase: "length (toLowerCase s) = length s"
  by (simp add: toLowerCase_def)

lemma fold_sentimentStep:
  "fold (sentimentStep text) ws (n, acc)
     = (n + length (filter (str_includes text) ws), acc @ filter (str_includes text) ws)"
  by (induction ws arbitrary: n acc) (simp_all add: sentimentStep_def)

lemma fold_categoryStep:
  "fold (categoryStep text config) kws (s, acc)
     = (s + weight config * real (length (filter (str_includes text) kws)),
        acc @ filter (str_includes text) kws)"
  by (induction kws arbitrary: s acc) (simp_all add: categoryStep_def algebra_simps)

lemma fold_priorityStep:
  "fold (priorityStep text prio config) kws (hp, sc, acc)
     = (if list_ex (str_includes text) kws \<and> weight config > sc
        then (prio, weight config, acc @ filter (str_includes text) kws)
        else (hp, sc, acc @ filter (str_includes text) kws))"
  by (induction kws arbitrary: hp sc acc) (simp_all add: priorityStep_def)

lemma priorityEntry_closed:
  "priorityEntry text (prio, config) (hp, sc, acc)
     = (if tierMatches text config \<and> weight config > sc
        then (prio, weight config, acc @ filter (str_includes text) (rule_keywords config))
        else (hp, sc, acc @ filter (str_includes text) (rule_keywords config)))"
  by (simp add: priorityEntry_def fold_priorityStep tierMatches_def)

lemma analyzeSentiment_closed:
  "analyzeSentiment text =
     \<lparr>sentiment_label =
        (if length (filter (str_includes text) negativeWordList)
              > length (filter (str_includes text) positiveWordList) then Negative
         else if length (filter (str_includes text) positiveWordList)
              > length (filter (str_includes text) negativeWordList) then Positive
         else Neutral),
      sen_score = \<bar>real (length (filter (str_includes text) positiveWordList))
                    - real (length (filter (str_includes text) negativeWordList))\<bar>,
      positiveWords = filter (str_includes text) positiveWordList,
      negativeWords = filter (str_includes text) negativeWordList,
      sen_confidence = min (real (length (filter (str_includes text) positiveWordList)
                                  + length (filter (str_includes text) negativeWordList)) / 3) 1\<rparr>"
  by (simp add: analyzeSentiment_def fold_sentimentStep)

lemma wordLists_lower_case:
  "list_all (\<lambda>w. toLowerCase w = w) positiveWordList"
  "list_all (\<lambda>w. toLowerCase w = w) negativeWordList"
  by code_simp+

lemma ciIncludes_wordLists:
  "filter (ciIncludes raw) positiveWordList = filter (str_includes (toLowerCase raw)) positiveWordList"
  "filter (ciIncludes raw) negativeWordList = filter (str_includes (toLowerCase raw)) negativeWordList"
  using wordLists_lower_case
  by (auto simp: ciIncludes_def list_all_iff intro!: filter_cong)

lemma sentiment_analyzeTicket:
  "sentiment (analyzeTicket ticket) = analyzeSentiment (toLowerCase (ticketText ticket))"
  by (simp add: analyzeTicket_def Let_def)


section \<open>Sentiment\<close>

text \<open>
  C8. \<open>analyzeSentiment\<close> counts, each on its own and each word once, the words of the positive
  list and the words of the negative list that occur in its text; the label, the score and the
  confidence are the stated functions of the two counts. \<open>analyzeTicket\<close> passes the ticket
  text in lower case, so on the ticket text the occurrences are case-insensitive.
\<close>

theorem analyzeSentiment_counts:
  "(let p = length (filter (str_includes text) positiveWordList);
        n = length (filter (str_includes text) negativeWordList);
        s = analyzeSentiment text
    in sentiment_label s = (if n > p then Negative else if p > n then Positive else Neutral)
       \<and> sen_score s = \<bar>real p - real n\<bar>
       \<and> sen_confidence s = min (real (p + n) / 3) 1
       \<and> positiveWords s = filter (str_includes text) positiveWordList
       \<and> negativeWords s = filter (str_includes text) negativeWordList)
   \<and> (let p = length (filter (ciIncludes (ticketText ticket)) positiveWordList);
          n = length (filter (ciIncludes (ticketText ticket)) negativeWordList);
          s = sentiment (analyzeTicket ticket)
      in sentiment_label s = (if n > p then Negative else if p > n then Positive else Neutral)
         \<and> sen_score s = \<bar>real p - real n\<bar>
         \<and> sen_confidence s = min (real (p + n) / 3) 1)"
  unfolding sentiment_analyzeTicket ciIncludes_wordLists Let_def
  by (simp add: analyzeSentiment_closed)

theorem analyzeSentiment_counts_witness:
  "sentiment_label (analyzeSentiment ''great but broken and awful'') = Negative
   \<and> sen_score (analyzeSentiment ''great but broken and awful'') = 1
   \<and> sen_confidence (analyzeSentiment ''great but broken and awful'') = 1
   \<and> sentiment_label (sentiment (analyzeTicket (textTicket ''Great, but BROKEN''))) = Neutral
   \<and> sen_confidence (sentiment (analyzeTicket (textTicket ''Great, but BROKEN''))) = 2 / 3"
proof -
  have a: "filter (str_includes ''great but broken and awful'') positiveWordList = [''great'']"
    by code_simp
  have b: "filter (str_includes ''great but broken and awful'') negativeWordList
           = [''awful'', ''broken'']"
    by code_simp
  have t: "ticketText (textTicket ''Great, but BROKEN'') = ''Great, but BROKEN''"
    by (simp add: ticketText_def textTicket_def orElse_def)
  have c: "filter (ciIncludes ''Great, but BROKEN'') positiveWordList = [''great'']"
    by code_simp
  have d: "filter (ciIncludes ''Great, but BROKEN'') negativeWordList = [''broken'']"
    by code_simp
  show ?thesis
    using analyzeSentiment_counts [of "''great but broken and awful''" "textTicket ''Great, but BROKEN''"]
    unfolding t a b c d Let_def by simp
qed

section \<open>Priority\<close>

lemma tier_weights: "weight urgentRule = 3" "weight highRule = 2" "weight lowRule = 1"
  by (simp_all add: urgentRule_def highRule_def lowRule_def)

lemma priorityScan_closed:
  "priorityScan text priorityKeywords =
     ((if tierMatches text urgentRule then Urgent
       else if tierMatches text highRule then High
       else if tierMatches text lowRule then Low else Normal),
      (if tierMatches text urgentRule then 3
       else if tierMatches text highRule then 2
       else if tierMatches text lowRule then 1 else 0),
      filter (str_includes text) (rule_keywords urgentRule)
      @ filter (str_includes text) (rule_keywords highRule)
      @ filter (str_includes text) (rule_keywords lowRule))"
  by (simp add: priorityScan_def priorityKeywords_def priorityEntry_closed tier_weights)

lemma analyzePriority_closed:
  "analyzePriority text =
     \<lparr>level = (if tierMatches text urgentRule then Urgent
               else if tierMatches text highRule then High
               else if tierMatches text lowRule then Low else Normal),
      pri_score = (if tierMatches text urgentRule then 3
                   else if tierMatches text highRule then 2
                   else if tierMatches text lowRule then 1 else 0),
      pri_matchedKeywords =
        filter (str_includes text) (rule_keywords urgentRule)
        @ filter (str_includes text) (rule_keywords highRule)
        @ filter (str_includes text) (rule_keywords lowRule),
      pri_confidence = (if tierMatches text urgentRule then 1
                        else if tierMatches text highRule then 2 / 3
                        else if tierMatches text lowRule then 1 / 3 else 1 / 2)\<rparr>"
  by (simp add: analyzePriority_def priorityScan_closed)

text \<open>
  C3. \<open>analyzePriority\<close> records every keyword of every tier that occurs in the text. When no
  tier has a keyword in the text, the level is normal and the confidence 0.5. Otherwise the
  level is that of a tier with a keyword in the text whose weight no other such tier exceeds,
  however many keywords each tier matched, and the confidence is \<open>min (weight / 3) 1\<close> for the
  weight of that tier.
\<close>

theorem analyzePriority_highest_tier:
  "pri_matchedKeywords (analyzePriority text)
     = concat (map (\<lambda>entry. filter (str_includes text) (rule_keywords (snd entry))) priorityKeywords)
   \<and> (matchedTiers text = [] \<longrightarrow>
        level (analyzePriority text) = Normal \<and> pri_confidence (analyzePriority text) = 1 / 2)
   \<and> (matchedTiers text \<noteq> [] \<longrightarrow>
        (\<exists>entry \<in> set (matchedTiers text).
           (\<forall>other \<in> set (matchedTiers text). weight (snd other) \<le> weight (snd entry))
           \<and> level (analyzePriority text) = fst entry
           \<and> pri_score (analyzePriority text) = weight (snd entry)
           \<and> pri_confidence (analyzePriority text) = min (weight (snd entry) / 3) 1))"
proof -
  have m: "pri_matchedKeywords (analyzePriority text)
     = concat (map (\<lambda>entry. filter (str_includes text) (rule_keywords (snd entry))) priorityKeywords)"
    by (simp add: analyzePriority_closed priorityKeywords_def)
  have r: "(matchedTiers text = [] \<longrightarrow>
        level (analyzePriority text) = Normal \<and> pri_confidence (analyzePriority text) = 1 / 2)
   \<and> (matchedTiers text \<noteq> [] \<longrightarrow>
        (\<exists>entry \<in> set (matchedTiers text).
           (\<forall>other \<in> set (matchedTiers text). weight (snd other) \<le> weight (snd entry))
           \<and> level (analyzePriority text) = fst entry
           \<and> pri_score (analyzePriority text) = weight (snd entry)
           \<and> pri_confidence (analyzePriority text) = min (weight (snd entry) / 3) 1))"
  proof (cases "tierMatches text urgentRule")
    case True
    then show ?thesis
      by (simp add: analyzePriority_closed matchedTiers_def priorityKeywords_def tier_weights)
  next
    case u: False
    show ?thesis
    proof (cases "tierMatches text highRule")
      case True
      then show ?thesis
        using u
        by (simp add: analyzePriority_closed matchedTiers_def priorityKeywords_def tier_weights)
    next
      case h: False
      show ?thesis
      proof (cases "tierMatches text lowRule")
        case True
        then show ?thesis
          using u h
          by (simp add: analyzePriority_closed matchedTiers_def priorityKeywords_def tier_weights)
      next
        case False
        then show ?thesis
          using u h
          by (simp add: analyzePriority_closed matchedTiers_def priorityKeywords_def tier_weights)
      qed
    qed
  qed
  show ?thesis using m r by blast
qed

theorem analyzePriority_highest_tier_witness:
  "matchedTiers ''minor cosmetic deadline'' = [(High, highRule), (Low, lowRule)]
   \<and> pri_matchedKeywords (analyzePriority ''minor cosmetic deadline'')
       = [''deadline'', ''minor'', ''cosmetic'']
   \<and> level (analyzePriority ''minor cosmetic deadline'') = High
   \<and> pri_confidence (analyzePriority ''minor cosmetic deadline'') = 2 / 3"
proof -
  have t: "matchedTiers ''minor cosmetic deadline'' = [(High, highRule), (Low, lowRule)]"
    by code_simp
  have k: "concat (map (\<lambda>entry. filter (str_includes ''minor cosmetic deadline'')
                                 (rule_keywords (snd entry))) priorityKeywords)
           = [''deadline'', ''minor'', ''cosmetic'']"
    by code_simp
  show ?thesis
    using analyzePriority_highest_tier [of "''minor cosmetic deadline''"]
    unfolding t k by (auto simp: tier_weights)
qed

section \<open>Overall confidence\<close>

lemma lengthFactor_toLowerCase: "lengthFactor (toLowerCase s) = lengthFactor s"
  by (simp add: lengthFactor_def length_toLowerCase)

lemma calculateConfidence_cases:
  "calculateConfidence analysis text =
     (case categories analysis of
        [] \<Rightarrow> (pri_confidence (priority analysis) + sen_confidence (sentiment analysis)
               + lengthFactor text) / 3
      | c # _ \<Rightarrow> (cat_confidence c + pri_confidence (priority analysis)
                  + sen_confidence (sentiment analysis) + lengthFactor text) / 4)"
  by (simp add: calculateConfidence_def Let_def split: list.splits)

text \<open>
  C1 (as the code has it). When at least one category matched, the overall confidence is the
  unweighted mean of four terms: the confidence of the top category, the priority confidence,
  the sentiment confidence and the length factor. When no category matched, the category term
  is left out of the mean altogether: the overall confidence is the mean of the other three.
\<close>

theorem analyzeTicket_confidence_mean:
  "confidence (analyzeTicket ticket) =
     (case categories (analyzeTicket ticket) of
        [] \<Rightarrow> (pri_confidence (priority (analyzeTicket ticket))
               + sen_confidence (sentiment (analyzeTicket ticket))
               + lengthFactor (ticketText ticket)) / 3
      | c # _ \<Rightarrow> (cat_confidence c
                    + pri_confidence (priority (analyzeTicket ticket))
                    + sen_confidence (sentiment (analyzeTicket ticket))
                    + lengthFactor (ticketText ticket)) / 4)"
  by (simp add: analyzeTicket_def Let_def calculateConfidence_cases lengthFactor_toLowerCase
        split: list.splits)

theorem analyzeTicket_confidence_mean_witness:
  "confidence (analyzeTicket (textTicket ''api error'')) = (4 / 5 + 1 / 2 + 0 + 9 / 500) / 4
   \<and> confidence (analyzeTicket (textTicket ''hello'')) = (1 / 2 + 0 + 5 / 500) / 3"
proof -
  have c: "categories (analyzeTicket (textTicket ''api error''))
           = [\<lparr>category = ''technical'', cat_score = 4, cat_matchedKeywords = [''error'', ''api''],
               cat_confidence = 4 / 5\<rparr>]"
    by code_simp
  have p: "pri_confidence (priority (analyzeTicket (textTicket ''api error''))) = 1 / 2"
    by code_simp
  have s: "sen_confidence (sentiment (analyzeTicket (textTicket ''api error''))) = 0"
    by code_simp
  have l: "lengthFactor (ticketText (textTicket ''api error'')) = 9 / 500"
    by code_simp
  have c': "categories (analyzeTicket (textTicket ''hello'')) = []"
    by code_simp
  have p': "pri_confidence (priority (analyzeTicket (textTicket ''hello''))) = 1 / 2"
    by code_simp
  have s': "sen_confidence (sentiment (analyzeTicket (textTicket ''hello''))) = 0"
    by code_simp
  have l': "lengthFactor (ticketText (textTicket ''hello'')) = 5 / 500"
    by code_simp
  show ?thesis
    using analyzeTicket_confidence_mean [of "textTicket ''api error''"]
          analyzeTicket_confidence_mean [of "textTicket ''hello''"]
    unfolding c p s l c' p' s' l' by simp
qed

theorem confidence_four_term_mean_counterexample:
  "categories (analyzeTicket (textTicket [])) = []
   \<and> confidence (analyzeTicket (textTicket []))
       \<noteq> (0 + pri_confidence (priority (analyzeTicket (textTicket [])))
            + sen_confidence (sentiment (analyzeTicket (textTicket [])))
            + min (real (length (ticketText (textTicket []))) / 500) 1) / 4"
  by code_simp

section \<open>Texts without any keyword\<close>

lemma fold_categoryEntry_no_match:
  "\<forall>entry \<in> set table. \<forall>k \<in> set (rule_keywords (snd entry)). \<not> str_includes text k \<Longrightarrow>
   fold (categoryEntry text) table cats = cats"
proof (induction table arbitrary: cats)
  case Nil
  show ?case by simp
next
  case (Cons entry table)
  have f: "filter (str_includes text) (rule_keywords (snd entry)) = []"
    using Cons.prems by (simp add: filter_empty_conv)
  have "categoryEntry text entry cats = cats"
    by (cases entry) (use f in \<open>simp add: categoryEntry_def fold_categoryStep\<close>)
  then show ?case using Cons by simp
qed

lemma fold_productEntry_no_match:
  "\<forall>entry \<in> set table. \<forall>k \<in> set (snd entry). \<not> str_includes text k \<Longrightarrow>
   fold (productEntry text) table prods = prods"
proof (induction table arbitrary: prods)
  case Nil
  show ?case by simp
next
  case (Cons entry table)
  have f: "filter (str_includes text) (snd entry) = []"
    using Cons.prems by (simp add: filter_empty_conv)
  have "productEntry text entry prods = prods"
    by (cases entry) (use f in \<open>simp add: productEntry_def\<close>)
  then show ?case using Cons by simp
qed

lemma noKeywordMatch_parts:
  assumes "noKeywordMatch text"
  shows "\<forall>entry \<in> set categoryKeywords. \<forall>k \<in> set (rule_keywords (snd entry)). \<not> str_includes text k"
    and "\<forall>entry \<in> set priorityKeywords. \<forall>k \<in> set (rule_keywords (snd entry)). \<not> str_includes text k"
    and "filter (str_includes text) positiveWordList = []"
    and "filter (str_includes text) negativeWordList = []"
    and "\<forall>entry \<in> set productKeywords. \<forall>k \<in> set (snd entry). \<not> str_includes text k"
  using assms
  by (auto simp: noKeywordMatch_def allKeywords_def list_all_iff filter_empty_conv)

lemma no_match_analysis:
  assumes "noKeywordMatch text"
  shows "categorizeContent text = []"
    and "analyzeProducts text = []"
    and "level (analyzePriority text) = Normal"
    and "pri_confidence (analyzePriority text) = 1 / 2"
    and "sentiment_label (analyzeSentiment text) = Neutral"
    and "sen_confidence (analyzeSentiment text) = 0"
proof -
  note p = noKeywordMatch_parts [OF assms]
  show "categorizeContent text = []"
    by (simp add: categorizeContent_def fold_categoryEntry_no_match [OF p(1)])
  show "analyzeProducts text = []"
    by (simp add: analyzeProducts_def fold_productEntry_no_match [OF p(5)])
  have t: "\<not> tierMatches text urgentRule" "\<not> tierMatches text highRule" "\<not> tierMatches text lowRule"
    using p(2) by (simp_all add: tierMatches_def list_ex_iff priorityKeywords_def)
  show "level (analyzePriority text) = Normal" "pri_confidence (analyzePriority text) = 1 / 2"
    using t by (simp_all add: analyzePriority_closed)
  show "sentiment_label (analyzeSentiment text) = Neutral" "sen_confidence (analyzeSentiment text) = 0"
    using p(3) p(4) by (simp_all add: analyzeSentiment_closed)
qed

lemma lengthFactor_quarter: "(1 / 2 + lengthFactor s) / 3 \<le> lengthFactor s \<longleftrightarrow> 125 \<le> length s"
proof -
  have "(1 / 2 + lengthFactor s) / 3 \<le> lengthFactor s \<longleftrightarrow> 1 / 4 \<le> lengthFactor s"
    by (simp add: field_simps)
  also have "\<dots> \<longleftrightarrow> 125 \<le> length s"
    by (auto simp: lengthFactor_def min_def)
  finally show ?thesis .
qed

text \<open>
  C4 (as the code has it). For a ticket whose lower-cased text contains no keyword of any of
  the four dimensions, the priority level is normal, the sentiment neutral, the category list
  empty and the product list empty. The overall confidence is the mean of the priority default
  0.5, the sentiment confidence 0 and the length factor: \<open>(0.5 + lengthFactor) / 3\<close>. It is at
  most the length factor exactly when the text has at least 125 characters.
\<close>

theorem analyzeTicket_no_keyword:
  assumes "noKeywordMatch (toLowerCase (ticketText ticket))"
  shows "level (priority (analyzeTicket ticket)) = Normal
       \<and> sentiment_label (sentiment (analyzeTicket ticket)) = Neutral
       \<and> categories (analyzeTicket ticket) = []
       \<and> products (analyzeTicket ticket) = []
       \<and> confidence (analyzeTicket ticket) = (1 / 2 + lengthFactor (ticketText ticket)) / 3
       \<and> (confidence (analyzeTicket ticket) \<le> lengthFactor (ticketText ticket)
            \<longleftrightarrow> 125 \<le> length (ticketText ticket))"
proof -
  note n = no_match_analysis [OF assms]
  have c: "confidence (analyzeTicket ticket) = (1 / 2 + lengthFactor (ticketText ticket)) / 3"
    by (simp add: analyzeTicket_def Let_def calculateConfidence_cases lengthFactor_toLowerCase n)
  show ?thesis
    unfolding c lengthFactor_quarter by (simp add: analyzeTicket_def Let_def n)
qed

theorem analyzeTicket_no_keyword_witness:
  "noKeywordMatch (toLowerCase (ticketText (textTicket ''Hi there'')))
   \<and> categories (analyzeTicket (textTicket ''Hi there'')) = []
   \<and> level (priority (analyzeTicket (textTicket ''Hi there''))) = Normal
   \<and> confidence (analyzeTicket (textTicket ''Hi there'')) = (1 / 2 + 8 / 500) / 3"
proof -
  have h: "noKeywordMatch (toLowerCase (ticketText (textTicket ''Hi there'')))"
    by code_simp
  have l: "lengthFactor (ticketText (textTicket ''Hi there'')) = 8 / 500"
    by code_simp
  show ?thesis
    using analyzeTicket_no_keyword [OF h] h unfolding l by simp
qed

theorem no_keyword_confidence_counterexample:
  "noKeywordMatch (toLowerCase (ticketText (textTicket ''hello'')))
   \<and> \<not> confidence (analyzeTicket (textTicket ''hello''))
         \<le> min (real (length (toLowerCase (ticketText (textTicket ''hello'')))) / 500) 1"
  by code_simp

section \<open>Tag policy\<close>

lemma highConfidenceStep_secondaryTag:
  "highConfidenceStep c tags =
     tags @ (if cat_confidence c > 0.6
             then (case secondaryTag (category c) of Some t \<Rightarrow> [t] | None \<Rightarrow> []) else [])"
  by (simp add: highConfidenceStep_def secondaryTag_def)

lemma fold_highConfidenceStep:
  "fold highConfidenceStep cats tags =
     tags @ concat (map (\<lambda>c. case secondaryTag (category c) of Some t \<Rightarrow> [t] | None \<Rightarrow> [])
                      (filter (\<lambda>c. cat_confidence c > 0.6) cats))"
  by (induction cats arbitrary: tags) (simp_all add: highConfidenceStep_secondaryTag)

lemma generateTags_policy: "generateTags a = newSet (policyTags a)"
  by (simp add: generateTags_def policyTags_def Let_def fold_highConfidenceStep split: list.splits)

lemma fold_setAdd_prefix: "\<exists>ys. fold setAdd xs acc = acc @ ys"
proof (induction xs arbitrary: acc)
  case Nil
  show ?case by simp
next
  case (Cons x xs)
  obtain ys where y: "fold setAdd xs (setAdd x acc) = setAdd x acc @ ys"
    using Cons.IH by blast
  show ?case
  proof (cases "x \<in> set acc")
    case True
    then have "setAdd x acc = acc" by (simp add: setAdd_def)
    with y have "fold setAdd (x # xs) acc = acc @ ys" by simp
    then show ?thesis by blast
  next
    case False
    then have "setAdd x acc = acc @ [x]" by (simp add: setAdd_def)
    with y have "fold setAdd (x # xs) acc = acc @ (x # ys)" by simp
    then show ?thesis by blast
  qed
qed

lemma newSet_Cons: "\<exists>ys. newSet (x # xs) = x # ys"
  using fold_setAdd_prefix [of xs "[x]"] by (simp add: newSet_def setAdd_def)

text \<open>
  C5. \<open>generateTags\<close> returns the tags prescribed by the policy rules, every tag at its first
  occurrence only: the marker first, then the category tag, the priority tag, the sentiment
  tag and the product tag under their thresholds, then the secondary tag of every category
  with confidence above 0.6 that has one. The result has no repeated tag.
\<close>

theorem generateTags_policy_list:
  "generateTags a = firstOccurrences (policyTags a)
   \<and> distinct (generateTags a)
   \<and> (\<exists>rest. generateTags a = ''auto-processed'' # rest)
   \<and> secondaryTag ''technical'' = Some ''needs-technical-review''
   \<and> secondaryTag ''billing'' = Some ''billing-inquiry''
   \<and> secondaryTag ''feature_request'' = Some ''feature-request''
   \<and> secondaryTag ''account'' = Some ''account-management''
   \<and> (label \<notin> {''technical'', ''billing'', ''feature_request'', ''account''}
        \<longrightarrow> secondaryTag label = None)"
proof -
  have a: "generateTags a = firstOccurrences (policyTags a)"
    by (simp add: generateTags_policy newSet_firstOccurrences)
  have b: "distinct (generateTags a)"
    by (simp add: generateTags_policy distinct_newSet)
  have c: "\<exists>rest. generateTags a = ''auto-processed'' # rest"
  proof -
    obtain r where "policyTags a = ''auto-processed'' # r"
      by (simp add: policyTags_def)
    then show ?thesis
      using newSet_Cons [of "''auto-processed''" r] by (simp add: generateTags_policy)
  qed
  have d: "secondaryTag ''technical'' = Some ''needs-technical-review''
   \<and> secondaryTag ''billing'' = Some ''billing-inquiry''
   \<and> secondaryTag ''feature_request'' = Some ''feature-request''
   \<and> secondaryTag ''account'' = Some ''account-management''
   \<and> (label \<notin> {''technical'', ''billing'', ''feature_request'', ''account''}
        \<longrightarrow> secondaryTag label = None)"
    by (auto simp: secondaryTag_def)
  show ?thesis using a b c d by blast
qed

theorem generateTags_policy_list_witness:
  "generateTags
     (tagAnalysis 1 [] 0
        \<lparr>categories :=
           [\<lparr>category = ''technical'', cat_score = 6, cat_matchedKeywords = [], cat_confidence = 1\<rparr>,
            \<lparr>category = ''billing'', cat_score = 4, cat_matchedKeywords = [], cat_confidence = 4 / 5\<rparr>,
            \<lparr>category = ''technical'', cat_score = 4, cat_matchedKeywords = [], cat_confidence = 4 / 5\<rparr>,
            \<lparr>category = ''sales'', cat_score = 4, cat_matchedKeywords = [], cat_confidence = 4 / 5\<rparr>,
            \<lparr>category = ''account'', cat_score = 2, cat_matchedKeywords = [], cat_confidence = 2 / 5\<rparr>],
         priority := \<lparr>level = Urgent, pri_score = 3, pri_matchedKeywords = [], pri_confidence = 1\<rparr>,
         sentiment := \<lparr>sentiment_label = Negative, sen_score = 1, positiveWords = [],
                        negativeWords = [], sen_confidence = 1 / 3\<rparr>,
         products := [\<lparr>product = ''api'', prod_matchedKeywords = [], prod_confidence = 1 / 2\<rparr>]\<rparr>)
   = [''auto-processed'', ''category-technical'', ''priority-urgent'', ''product-api'',
      ''needs-technical-review'', ''billing-inquiry'']
   \<and> secondaryTag ''sales'' = None"
proof -
  let ?a = "tagAnalysis 1 [] 0
        \<lparr>categories :=
           [\<lparr>category = ''technical'', cat_score = 6, cat_matchedKeywords = [], cat_confidence = 1\<rparr>,
            \<lparr>category = ''billing'', cat_score = 4, cat_matchedKeywords = [], cat_confidence = 4 / 5\<rparr>,
            \<lparr>category = ''technical'', cat_score = 4, cat_matchedKeywords = [], cat_confidence = 4 / 5\<rparr>,
            \<lparr>category = ''sales'', cat_score = 4, cat_matchedKeywords = [], cat_confidence = 4 / 5\<rparr>,
            \<lparr>category = ''account'', cat_score = 2, cat_matchedKeywords = [], cat_confidence = 2 / 5\<rparr>],
         priority := \<lparr>level = Urgent, pri_score = 3, pri_matchedKeywords = [], pri_confidence = 1\<rparr>,
         sentiment := \<lparr>sentiment_label = Negative, sen_score = 1, positiveWords = [],
                        negativeWords = [], sen_confidence = 1 / 3\<rparr>,
         products := [\<lparr>product = ''api'', prod_matchedKeywords = [], prod_confidence = 1 / 2\<rparr>]\<rparr>"
  have p: "firstOccurrences (policyTags ?a)
     = [''auto-processed'', ''category-technical'', ''priority-urgent'', ''product-api'',
        ''needs-technical-review'', ''billing-inquiry'']"
    by code_simp
  show ?thesis
    using generateTags_policy_list [of ?a "''sales''"] unfolding p by simp
qed

end
